theory Spec2Isabelle
  imports Complex_Main "HOL-Library.Word"
begin

section \<open>Task configuration for federated EMNIST and Shakespeare\<close>

text \<open>
  The two modules \<^verbatim>\<open>optimization/emnist/federated_emnist.py\<close> and
  \<^verbatim>\<open>optimization/shakespeare/federated_shakespeare.py\<close> are glue code: each
  \<^verbatim>\<open>configure_training\<close> calls dataset loaders, model constructors and builders that live
  elsewhere, in the order in which the statements are written, and returns a bundle of closures.
  The embedding keeps that shape. Every function the modules call but do not define is a field
  of a record of collaborators (or of the \<^verbatim>\<open>TaskSpec\<close>), a call that may raise returns
  a sum with the exception on the left, and \<^verbatim>\<open>configure_training\<close> returns, next to its
  result, the list of the calls it made, in order, each with the arguments it passed.
\<close>

subsection \<open>Errors\<close>

text \<open>
  An exception that comes out of a collaborator is an \<open>external_exception\<close>; the modules
  never look at one and have no \<^verbatim>\<open>try\<close>, so it reaches the caller unchanged, as
  \<open>Propagated\<close>. The other constructors are the exceptions that arise in the modules' own
  statements: \<open>ValueError\<close> from the \<^verbatim>\<open>raise\<close> of the EMNIST module,
  \<open>IndexError\<close> from \<^verbatim>\<open>client_ids[0]\<close> on an empty list, \<open>KeyError\<close> from a
  dictionary without the key.
\<close>

type_synonym external_exception = string

datatype error = ValueError string | IndexError | KeyError string | Propagated external_exception

type_synonym 'a outcome = "external_exception + 'a"

type_synonym 'a result = "error + 'a"

subsection \<open>Objects of the external libraries\<close>

text \<open>
  An object of TensorFlow or TensorFlow Federated whose inside the modules never look at
  (a Keras model, a learning model, an iterative process, an element specification, model
  weights, evaluation metrics) is a value of the type parameter \<open>'o\<close>. Losses and metrics are
  built by the modules themselves from a class and its constructor arguments, so they are
  terms of that shape. \<^verbatim>\<open>SparseCategoricalCrossentropy()\<close> without arguments has Keras'
  default \<^verbatim>\<open>from_logits=False\<close>.
\<close>

datatype loss = SparseCategoricalCrossentropy (from_logits: bool)

datatype metric =
    SparseCategoricalAccuracy
  | NumBatchesCounter
  | NumExamplesCounter
  | NumTokensCounter (masked_tokens: "int list")
  | MaskedCategoricalAccuracy (masked_tokens: "int list")

text \<open>
  A tensor is its element type, its shape and its elements in row-major order. Only the two
  element types of \<^verbatim>\<open>client_weight_fn\<close> occur: \<^verbatim>\<open>int64\<close>, a 64-bit word read as a
  signed number, and \<^verbatim>\<open>float32\<close>, whose finite values are real numbers.
\<close>

datatype tensor =
    Int64Tensor "nat list" "64 word list"
  | Float32Tensor "nat list" "real list"

type_synonym local_outputs = "string \<rightharpoonup> tensor"

record 'o tf_dataset =
  element_spec :: 'o
  handle :: 'o

record 'o client_data =
  client_ids :: "string list"
  create_tf_dataset_for_client :: "string \<Rightarrow> 'o tf_dataset outcome"
  element_type_structure :: 'o

subsection \<open>TaskSpec and RunnerSpec\<close>

text \<open>
  Modelled from the spec: the classes \<^verbatim>\<open>TaskSpec\<close> and \<^verbatim>\<open>RunnerSpec\<close> of
  \<^verbatim>\<open>optimization.shared.training_specs\<close>, which the two modules import. The spec gives
  \<^verbatim>\<open>TaskSpec\<close> the fields \<^verbatim>\<open>client_batch_size\<close>, \<^verbatim>\<open>client_epochs_per_round\<close>,
  \<^verbatim>\<open>clients_per_round\<close>, \<^verbatim>\<open>client_datasets_random_seed\<close> and
  \<^verbatim>\<open>iterative_process_builder\<close>, and says of the builder that it accepts a model-factory
  closure, optionally a client-weighting closure, and returns a trainable process object. The
  optional keyword argument is an \<open>option\<close>: \<open>None\<close> when the call does not supply it.
  \<^verbatim>\<open>RunnerSpec\<close> has the four fields \<^verbatim>\<open>iterative_process\<close>, \<^verbatim>\<open>client_datasets_fn\<close>,
  \<^verbatim>\<open>validation_fn\<close> and \<^verbatim>\<open>test_fn\<close>; a field is \<open>None\<close> when it holds Python's null.
\<close>

record 'o TaskSpec =
  client_batch_size :: int
  client_epochs_per_round :: int
  clients_per_round :: int
  client_datasets_random_seed :: int
  iterative_process_builder ::
    "(unit \<Rightarrow> 'o outcome) \<Rightarrow> (local_outputs \<Rightarrow> tensor result) option \<Rightarrow> 'o outcome"

record 'o RunnerSpec =
  iterative_process :: "'o option"
  client_datasets_fn :: "(int \<Rightarrow> 'o tf_dataset list outcome) option"
  validation_fn :: "('o \<Rightarrow> int \<Rightarrow> 'o outcome) option"
  test_fn :: "('o \<Rightarrow> 'o outcome) option"

subsection \<open>The collaborators\<close>

text \<open>
  The functions and constants of \<^verbatim>\<open>utils.datasets.emnist_dataset\<close>,
  \<^verbatim>\<open>utils.models.emnist_models\<close>, \<^verbatim>\<open>utils.datasets.shakespeare_dataset\<close>,
  \<^verbatim>\<open>utils.models.shakespeare_models\<close>, \<^verbatim>\<open>utils.training_utils\<close> and
  \<^verbatim>\<open>tff.learning\<close> that the two modules use, with the arguments the modules pass (the
  keyword arguments they leave at their defaults are not parameters here).
\<close>

record 'o collaborators =
  emnist_get_federated_datasets ::
    "int \<Rightarrow> int \<Rightarrow> bool \<Rightarrow> ('o client_data \<times> 'o client_data) outcome"
  emnist_get_centralized_datasets :: "bool \<Rightarrow> ('o tf_dataset \<times> 'o tf_dataset) outcome"
  create_conv_dropout_model :: "bool \<Rightarrow> 'o outcome"
  create_two_hidden_layer_model :: "bool \<Rightarrow> 'o outcome"
  CHAR_VOCAB :: string
  get_special_tokens :: "int \<times> int \<times> int \<times> int"
  shakespeare_get_federated_datasets ::
    "int \<Rightarrow> int \<Rightarrow> int \<Rightarrow> ('o client_data \<times> 'o client_data) outcome"
  shakespeare_get_centralized_datasets :: "int \<Rightarrow> ('o tf_dataset \<times> 'o tf_dataset) outcome"
  create_recurrent_model :: "int \<Rightarrow> int \<Rightarrow> 'o outcome"
  from_keras_model :: "'o \<Rightarrow> 'o \<Rightarrow> loss \<Rightarrow> metric list \<Rightarrow> 'o outcome"
  build_client_datasets_fn ::
    "'o client_data \<Rightarrow> int \<Rightarrow> int \<Rightarrow> (int \<Rightarrow> 'o tf_dataset list outcome) outcome"
  build_centralized_evaluate_fn ::
    "'o tf_dataset \<Rightarrow> (unit \<Rightarrow> 'o outcome) \<Rightarrow> (unit \<Rightarrow> loss) \<Rightarrow> (unit \<Rightarrow> metric list)
      \<Rightarrow> ('o \<Rightarrow> 'o outcome) outcome"

subsection \<open>The calls a configurator makes\<close>

text \<open>
  One constructor for each call to a collaborator, with the arguments of the call.
  \<open>call c r k\<close> is a statement \<^verbatim>\<open>v = f(args)\<close> followed by the rest \<open>k v\<close> of the
  function: \<open>c\<close> records the call, \<open>r\<close> is what it returned. When the call raises, the
  function ends there and the exception propagates.
\<close>

datatype 'o call =
    EmnistGetFederatedDatasets int int bool
  | EmnistGetCentralizedDatasets bool
  | ShakespeareGetFederatedDatasets int int int
  | ShakespeareGetCentralizedDatasets int
  | CreateTfDatasetForClient string
  | IterativeProcessBuilder "unit \<Rightarrow> 'o outcome" "(local_outputs \<Rightarrow> tensor result) option"
  | BuildClientDatasetsFn "'o client_data" int int
  | BuildCentralizedEvaluateFn "'o tf_dataset" "unit \<Rightarrow> 'o outcome" "unit \<Rightarrow> loss"
      "unit \<Rightarrow> metric list"

definition call ::
  "'c \<Rightarrow> 'a outcome \<Rightarrow> ('a \<Rightarrow> 'c list \<times> 'b result) \<Rightarrow> 'c list \<times> 'b result" where
  "call c r k =
     (case r of
        Inl x \<Rightarrow> ([c], Inl (Propagated x))
      | Inr v \<Rightarrow> (case k v of (cs, res) \<Rightarrow> (c # cs, res)))"


subsection \<open>Python's string conversions\<close>

text \<open>
  \<^verbatim>\<open>'{!s}'.format(x)\<close> inserts \<^verbatim>\<open>str(x)\<close>. For a string that is the string itself; for
  a list it is the elements' \<^verbatim>\<open>repr\<close>, separated by a comma and a space, in brackets.
  \<open>py_repr_str\<close> is \<^verbatim>\<open>repr\<close> for a string of printable characters without quote or
  backslash, which is all it is applied to (the two model names).
\<close>

fun join :: "string \<Rightarrow> string list \<Rightarrow> string" where
  "join sep [] = []"
| "join sep [x] = x"
| "join sep (x # y # ys) = x @ sep @ join sep (y # ys)"

definition py_repr_str :: "string \<Rightarrow> string" where
  "py_repr_str s = [CHR 0x27] @ s @ [CHR 0x27]"

definition py_str_list :: "string list \<Rightarrow> string" where
  "py_str_list xs = ''['' @ join '', '' (map py_repr_str xs) @ '']''"

subsection \<open>The learning-model factory\<close>

text \<open>
  Both modules define the same nested function \<^verbatim>\<open>tff_model_fn\<close>; the variables it
  captures are parameters here. Python evaluates \<^verbatim>\<open>model_builder()\<close> first, so an
  exception in it comes before \<^verbatim>\<open>from_keras_model\<close> is called.
\<close>

definition tff_model_fn ::
  "'o collaborators \<Rightarrow> (unit \<Rightarrow> 'o outcome) \<Rightarrow> 'o \<Rightarrow> (unit \<Rightarrow> loss) \<Rightarrow> (unit \<Rightarrow> metric list)
    \<Rightarrow> unit \<Rightarrow> 'o outcome" where
  "tff_model_fn env model_builder input_spec loss_builder metrics_builder =
     (\<lambda>_. case model_builder () of
             Inl x \<Rightarrow> Inl x
           | Inr keras_model \<Rightarrow>
               from_keras_model env keras_model input_spec (loss_builder ()) (metrics_builder ()))"

subsection \<open>federated\_emnist.py\<close>

definition EMNIST_MODELS :: "string list" where
  "EMNIST_MODELS = [''cnn'', ''2nn'']"

definition emnist_configure_training ::
  "'o collaborators \<Rightarrow> 'o TaskSpec \<Rightarrow> string \<Rightarrow> 'o call list \<times> 'o RunnerSpec result" where
  "emnist_configure_training env task_spec model =
     call (EmnistGetFederatedDatasets (client_batch_size task_spec)
             (client_epochs_per_round task_spec) False)
          (emnist_get_federated_datasets env (client_batch_size task_spec)
             (client_epochs_per_round task_spec) False)
     (\<lambda>(emnist_train, _).
     call (EmnistGetCentralizedDatasets False) (emnist_get_centralized_datasets env False)
     (\<lambda>(_, emnist_test).
     case client_ids emnist_train of
       [] \<Rightarrow> ([], Inl IndexError)
     | client_id # _ \<Rightarrow>
     call (CreateTfDatasetForClient client_id)
          (create_tf_dataset_for_client emnist_train client_id)
     (\<lambda>client_dataset.
     let input_spec = element_spec client_dataset in
     case (if model = ''cnn'' then Inr (\<lambda>_. create_conv_dropout_model env False)
           else if model = ''2nn'' then Inr (\<lambda>_. create_two_hidden_layer_model env False)
           else Inl (ValueError (''Cannot handle model flag ['' @ model @
                       ''], must be one of '' @ py_str_list EMNIST_MODELS @ ''.''))) of
       Inl e \<Rightarrow> ([], Inl e)
     | Inr model_builder \<Rightarrow>
     let loss_builder = (\<lambda>_. SparseCategoricalCrossentropy False);
         metrics_builder = (\<lambda>_. [SparseCategoricalAccuracy]);
         model_fn = tff_model_fn env model_builder input_spec loss_builder metrics_builder in
     call (IterativeProcessBuilder model_fn None)
          (iterative_process_builder task_spec model_fn None)
     (\<lambda>training_process.
     call (BuildClientDatasetsFn emnist_train (clients_per_round task_spec)
             (client_datasets_random_seed task_spec))
          (build_client_datasets_fn env emnist_train (clients_per_round task_spec)
             (client_datasets_random_seed task_spec))
     (\<lambda>client_datasets.
     call (BuildCentralizedEvaluateFn emnist_test model_builder loss_builder metrics_builder)
          (build_centralized_evaluate_fn env emnist_test model_builder loss_builder
             metrics_builder)
     (\<lambda>test.
     let validation = (\<lambda>model_weights round_num. test model_weights) in
     ([], Inr \<lparr>iterative_process = Some training_process,
               client_datasets_fn = Some client_datasets,
               validation_fn = Some validation,
               test_fn = Some test\<rparr>)))))))"

text \<open>
  The signature is \<^verbatim>\<open>configure_training(task_spec, model='cnn')\<close>: a call may leave
  \<^verbatim>\<open>model\<close> out.
\<close>

definition emnist_configure_training_call ::
  "'o collaborators \<Rightarrow> 'o TaskSpec \<Rightarrow> string option \<Rightarrow> 'o call list \<times> 'o RunnerSpec result" where
  "emnist_configure_training_call env task_spec model_arg =
     emnist_configure_training env task_spec
       (case model_arg of None \<Rightarrow> ''cnn'' | Some model \<Rightarrow> model)"

subsection \<open>Tensor operations used by the Shakespeare module\<close>

text \<open>
  \<^verbatim>\<open>tf.squeeze\<close> removes every dimension of size 1 and keeps the elements.
  \<^verbatim>\<open>tf.cast(x, tf.float32)\<close> converts each element to the nearest \<^verbatim>\<open>float32\<close>, ties
  to the even significand. A \<^verbatim>\<open>float32\<close> has a significand of 24 bits: \<open>excess_bits m\<close>
  is the number of low bits of \<open>m\<close> that do not fit, and \<open>float32_of_nat\<close> rounds them away.
  No 64-bit integer is large enough to overflow a \<^verbatim>\<open>float32\<close>.
\<close>

fun excess_bits :: "nat \<Rightarrow> nat" where
  "excess_bits m = (if m < 16777216 then 0 else Suc (excess_bits (m div 2)))"

declare excess_bits.simps [simp del]

definition float32_of_nat :: "nat \<Rightarrow> nat" where
  "float32_of_nat m =
     (let e = excess_bits m;
          q = m div 2 ^ e;
          r = m mod 2 ^ e;
          q' = (if 2 ^ e < 2 * r \<or> (2 * r = 2 ^ e \<and> odd q) then q + 1 else q)
      in q' * 2 ^ e)"

definition float32_of_int :: "int \<Rightarrow> real" where
  "float32_of_int i =
     (if i < 0 then - real (float32_of_nat (nat (- i))) else real (float32_of_nat (nat i)))"

fun tf_squeeze :: "tensor \<Rightarrow> tensor" where
  "tf_squeeze (Int64Tensor shape xs) = Int64Tensor (filter (\<lambda>d. d \<noteq> 1) shape) xs"
| "tf_squeeze (Float32Tensor shape xs) = Float32Tensor (filter (\<lambda>d. d \<noteq> 1) shape) xs"

fun tf_cast_float32 :: "tensor \<Rightarrow> tensor" where
  "tf_cast_float32 (Int64Tensor shape xs) =
     Float32Tensor shape (map (\<lambda>x. float32_of_int (sint x)) xs)"
| "tf_cast_float32 (Float32Tensor shape xs) = Float32Tensor shape xs"

subsection \<open>federated\_shakespeare.py\<close>

definition VOCAB_SIZE :: "'o collaborators \<Rightarrow> int" where
  "VOCAB_SIZE env = int (length (CHAR_VOCAB env)) + 4"

definition create_shakespeare_model :: "'o collaborators \<Rightarrow> int \<Rightarrow> 'o outcome" where
  "create_shakespeare_model env sequence_length =
     create_recurrent_model env (VOCAB_SIZE env) sequence_length"

definition metrics_builder :: "'o collaborators \<Rightarrow> metric list" where
  "metrics_builder env =
     (case get_special_tokens env of
        (pad_token, _, _, _) \<Rightarrow>
          [NumBatchesCounter,
           NumExamplesCounter,
           NumTokensCounter [pad_token],
           MaskedCategoricalAccuracy [pad_token]])"

definition client_weight_fn :: "local_outputs \<Rightarrow> tensor result" where
  "client_weight_fn local_outputs =
     (case local_outputs ''num_tokens'' of
        None \<Rightarrow> Inl (KeyError ''num_tokens'')
      | Some num_tokens \<Rightarrow> Inr (tf_cast_float32 (tf_squeeze num_tokens)))"

definition shakespeare_configure_training ::
  "'o collaborators \<Rightarrow> 'o TaskSpec \<Rightarrow> int \<Rightarrow> 'o call list \<times> 'o RunnerSpec result" where
  "shakespeare_configure_training env task_spec sequence_length =
     call (ShakespeareGetFederatedDatasets (client_batch_size task_spec)
             (client_epochs_per_round task_spec) sequence_length)
          (shakespeare_get_federated_datasets env (client_batch_size task_spec)
             (client_epochs_per_round task_spec) sequence_length)
     (\<lambda>(shakespeare_train, _).
     call (ShakespeareGetCentralizedDatasets sequence_length)
          (shakespeare_get_centralized_datasets env sequence_length)
     (\<lambda>(_, shakespeare_test).
     let model_builder = (\<lambda>_. create_shakespeare_model env sequence_length);
         loss_builder = (\<lambda>_. SparseCategoricalCrossentropy True);
         input_spec = element_type_structure shakespeare_train;
         model_fn = tff_model_fn env model_builder input_spec loss_builder
                      (\<lambda>_. metrics_builder env) in
     call (IterativeProcessBuilder model_fn (Some client_weight_fn))
          (iterative_process_builder task_spec model_fn (Some client_weight_fn))
     (\<lambda>training_process.
     call (BuildClientDatasetsFn shakespeare_train (clients_per_round task_spec)
             (client_datasets_random_seed task_spec))
          (build_client_datasets_fn env shakespeare_train (clients_per_round task_spec)
             (client_datasets_random_seed task_spec))
     (\<lambda>client_datasets.
     call (BuildCentralizedEvaluateFn shakespeare_test model_builder loss_builder
             (\<lambda>_. metrics_builder env))
          (build_centralized_evaluate_fn env shakespeare_test model_builder loss_builder
             (\<lambda>_. metrics_builder env))
     (\<lambda>test.
     let validation = (\<lambda>model_weights round_num. test model_weights) in
     ([], Inr \<lparr>iterative_process = Some training_process,
               client_datasets_fn = Some client_datasets,
               validation_fn = Some validation,
               test_fn = Some test\<rparr>))))))"

text \<open>
  The signature is \<^verbatim>\<open>configure_training(task_spec, sequence_length=80)\<close>.
\<close>

definition shakespeare_configure_training_call ::
  "'o collaborators \<Rightarrow> 'o TaskSpec \<Rightarrow> int option \<Rightarrow> 'o call list \<times> 'o RunnerSpec result" where
  "shakespeare_configure_training_call env task_spec sequence_length_arg =
     shakespeare_configure_training env task_spec
       (case sequence_length_arg of None \<Rightarrow> 80 | Some sequence_length \<Rightarrow> sequence_length)"

subsection \<open>The masked accuracy metric\<close>

text \<open>
  Modelled from the spec: the class \<^verbatim>\<open>MaskedCategoricalAccuracy\<close> of
  \<^verbatim>\<open>optimization.shared.keras_metrics\<close>, which \<^verbatim>\<open>metrics_builder\<close> instantiates and
  whose code is not among the two modules. The spec calls it a masked categorical accuracy
  that excludes padding-token positions from the accuracy computation, and says that on an
  all-padding target sequence it reports zero contributing positions and is not a
  divide-by-zero failure. So the metric keeps two counters, the contributing positions (those
  whose target is not a masked token) and the contributing positions predicted correctly;
  an update adds one batch of targets and predicted tokens to them; the accuracy is their
  quotient, and 0 rather than a failure when no position has contributed.
\<close>

record masked_accuracy =
  correct_positions :: nat
  contributing_positions :: nat

definition masked_accuracy_initial :: masked_accuracy where
  "masked_accuracy_initial = \<lparr>correct_positions = 0, contributing_positions = 0\<rparr>"

text \<open>
  Modelled from the spec: the update of \<^verbatim>\<open>MaskedCategoricalAccuracy\<close> with a batch, given
  as the target tokens and the predicted tokens, position by position. Positions whose
  target is a masked token are excluded.
\<close>

definition masked_accuracy_update ::
  "int list \<Rightarrow> int list \<Rightarrow> int list \<Rightarrow> masked_accuracy \<Rightarrow> masked_accuracy" where
  "masked_accuracy_update masked y_true y_pred st =
     (let kept = filter (\<lambda>(t, p). t \<notin> set masked) (zip y_true y_pred)
      in \<lparr>correct_positions = correct_positions st + length (filter (\<lambda>(t, p). t = p) kept),
          contributing_positions = contributing_positions st + length kept\<rparr>)"

text \<open>
  Modelled from the spec: the result of \<^verbatim>\<open>MaskedCategoricalAccuracy\<close>. With no
  contributing position it is not a divide-by-zero failure; the value reported then is 0.
\<close>

datatype arithmetic_error = ZeroDivisionError

definition masked_accuracy_result :: "masked_accuracy \<Rightarrow> arithmetic_error + real" where
  "masked_accuracy_result st =
     (if contributing_positions st = 0 then Inr 0
      else Inr (real (correct_positions st) / real (contributing_positions st)))"

subsection \<open>A small environment to evaluate the configurators in\<close>

text \<open>
  Collaborators that all return: one client \<^verbatim>\<open>f0000_14\<close>, objects numbered by
  natural numbers, an evaluation function that returns the weights it is given.
\<close>

definition example_client_data :: "nat client_data" where
  "example_client_data =
     \<lparr>client_ids = [''f0000_14''],
      create_tf_dataset_for_client = (\<lambda>_. Inr \<lparr>element_spec = 0, handle = 1\<rparr>),
      element_type_structure = 0\<rparr>"

definition example_env :: "nat collaborators" where
  "example_env =
     \<lparr>emnist_get_federated_datasets = (\<lambda>_ _ _. Inr (example_client_data, example_client_data)),
      emnist_get_centralized_datasets =
        (\<lambda>_. Inr (\<lparr>element_spec = 0, handle = 2\<rparr>, \<lparr>element_spec = 0, handle = 3\<rparr>)),
      create_conv_dropout_model = (\<lambda>_. Inr 4),
      create_two_hidden_layer_model = (\<lambda>_. Inr 5),
      CHAR_VOCAB = ''abc'',
      get_special_tokens = (0, 4, 5, 6),
      shakespeare_get_federated_datasets =
        (\<lambda>_ _ _. Inr (example_client_data, example_client_data)),
      shakespeare_get_centralized_datasets =
        (\<lambda>_. Inr (\<lparr>element_spec = 0, handle = 2\<rparr>, \<lparr>element_spec = 0, handle = 3\<rparr>)),
      create_recurrent_model = (\<lambda>_ _. Inr 6),
      from_keras_model = (\<lambda>_ _ _ _. Inr 7),
      build_client_datasets_fn = (\<lambda>_ _ _. Inr (\<lambda>_. Inr [])),
      build_centralized_evaluate_fn = (\<lambda>_ _ _ _. Inr (\<lambda>model_weights. Inr model_weights))\<rparr>"

definition example_task_spec :: "nat TaskSpec" where
  "example_task_spec =
     \<lparr>client_batch_size = 20,
      client_epochs_per_round = 1,
      clients_per_round = 10,
      client_datasets_random_seed = 1,
      iterative_process_builder = (\<lambda>_ _. Inr 8)\<rparr>"

definition example_runner_spec :: "nat RunnerSpec" where
  "example_runner_spec =
     \<lparr>iterative_process = Some 8,
      client_datasets_fn = Some (\<lambda>_. Inr []),
      validation_fn = Some (\<lambda>model_weights round_num. Inr model_weights),
      test_fn = Some (\<lambda>model_weights. Inr model_weights)\<rparr>"

text \<open>The same environment with dataset loaders that raise.\<close>

definition offline_env :: "nat collaborators" where
  "offline_env =
     example_env
       \<lparr>emnist_get_federated_datasets := (\<lambda>_ _ _. Inl ''download failed''),
        shakespeare_get_federated_datasets := (\<lambda>_ _ _. Inl ''download failed'')\<rparr>"


section \<open>Properties\<close>

subsection \<open>Calls\<close>

lemma call_raises [simp]: "call c (Inl x) k = ([c], Inl (Propagated x))"
  by (simp add: call_def)

lemma call_returns [simp]: "call c (Inr v) k = (c # fst (k v), snd (k v))"
  by (simp add: call_def split: prod.splits)

subsection \<open>The runs of the EMNIST configurator\<close>


lemma in_EMNIST_MODELS: "model \<in> set EMNIST_MODELS \<longleftrightarrow> model = ''cnn'' \<or> model = ''2nn''"
  by (auto simp: EMNIST_MODELS_def)

lemma emnist_configure_training_cases:
  fixes env :: "'o collaborators" and task_spec :: "'o TaskSpec" and model :: string
  defines "run \<equiv> emnist_configure_training env task_spec model"
    and "fed \<equiv> EmnistGetFederatedDatasets (client_batch_size task_spec)
                  (client_epochs_per_round task_spec) False"
    and "cen \<equiv> EmnistGetCentralizedDatasets False"
    and "loss_builder \<equiv> (\<lambda>_::unit. SparseCategoricalCrossentropy False)"
    and "metrics \<equiv> (\<lambda>_::unit. [SparseCategoricalAccuracy])"
  obtains
    (federated_load_raises) x where
      "run = ([fed], Inl (Propagated x))"
  | (centralized_load_raises) x where
      "run = ([fed, cen], Inl (Propagated x))"
  | (no_client) "run = ([fed, cen], Inl IndexError)"
  | (client_dataset_raises) client_id x where
      "run = ([fed, cen, CreateTfDatasetForClient client_id], Inl (Propagated x))"
  | (unknown_model) client_id where
      "model \<noteq> ''cnn''" "model \<noteq> ''2nn''"
      "run = ([fed, cen, CreateTfDatasetForClient client_id],
              Inl (ValueError (''Cannot handle model flag ['' @ model @
                     ''], must be one of '' @ py_str_list EMNIST_MODELS @ ''.'')))"
  | (process_builder_raises) client_id input_spec model_builder x where
      "model = ''cnn'' \<and> model_builder = (\<lambda>_. create_conv_dropout_model env False)
       \<or> model = ''2nn'' \<and> model_builder = (\<lambda>_. create_two_hidden_layer_model env False)"
      "run = ([fed, cen, CreateTfDatasetForClient client_id,
               IterativeProcessBuilder
                 (tff_model_fn env model_builder input_spec loss_builder metrics) None],
              Inl (Propagated x))"
  | (client_datasets_builder_raises) client_id input_spec model_builder emnist_train x where
      "model = ''cnn'' \<and> model_builder = (\<lambda>_. create_conv_dropout_model env False)
       \<or> model = ''2nn'' \<and> model_builder = (\<lambda>_. create_two_hidden_layer_model env False)"
      "run = ([fed, cen, CreateTfDatasetForClient client_id,
               IterativeProcessBuilder
                 (tff_model_fn env model_builder input_spec loss_builder metrics) None,
               BuildClientDatasetsFn emnist_train (clients_per_round task_spec)
                 (client_datasets_random_seed task_spec)],
              Inl (Propagated x))"
  | (evaluate_builder_raises) client_id input_spec model_builder emnist_train emnist_test x where
      "model = ''cnn'' \<and> model_builder = (\<lambda>_. create_conv_dropout_model env False)
       \<or> model = ''2nn'' \<and> model_builder = (\<lambda>_. create_two_hidden_layer_model env False)"
      "run = ([fed, cen, CreateTfDatasetForClient client_id,
               IterativeProcessBuilder
                 (tff_model_fn env model_builder input_spec loss_builder metrics) None,
               BuildClientDatasetsFn emnist_train (clients_per_round task_spec)
                 (client_datasets_random_seed task_spec),
               BuildCentralizedEvaluateFn emnist_test model_builder loss_builder metrics],
              Inl (Propagated x))"
  | (returns) client_id input_spec model_builder emnist_train emnist_test
      training_process client_datasets test where
      "model = ''cnn'' \<and> model_builder = (\<lambda>_. create_conv_dropout_model env False)
       \<or> model = ''2nn'' \<and> model_builder = (\<lambda>_. create_two_hidden_layer_model env False)"
      "iterative_process_builder task_spec
         (tff_model_fn env model_builder input_spec loss_builder metrics) None
       = Inr training_process"
      "build_centralized_evaluate_fn env emnist_test model_builder loss_builder metrics
       = Inr test"
      "run = ([fed, cen, CreateTfDatasetForClient client_id,
               IterativeProcessBuilder
                 (tff_model_fn env model_builder input_spec loss_builder metrics) None,
               BuildClientDatasetsFn emnist_train (clients_per_round task_spec)
                 (client_datasets_random_seed task_spec),
               BuildCentralizedEvaluateFn emnist_test model_builder loss_builder metrics],
              Inr \<lparr>iterative_process = Some training_process,
                   client_datasets_fn = Some client_datasets,
                   validation_fn = Some (\<lambda>model_weights round_num. test model_weights),
                   test_fn = Some test\<rparr>)"
proof (cases "emnist_get_federated_datasets env (client_batch_size task_spec)
                (client_epochs_per_round task_spec) False")
  case (Inl x)
  then have "run = ([fed], Inl (Propagated x))"
    by (simp add: run_def fed_def emnist_configure_training_def)
  then show thesis by (rule federated_load_raises)
next
  case fed_ok: (Inr trains)
  obtain emnist_train other_train where trains: "trains = (emnist_train, other_train)"
    by (cases trains)
  show thesis
  proof (cases "emnist_get_centralized_datasets env False")
    case (Inl x)
    then have "run = ([fed, cen], Inl (Propagated x))"
      by (simp add: run_def fed_def cen_def emnist_configure_training_def fed_ok trains)
    then show thesis by (rule centralized_load_raises)
  next
    case cen_ok: (Inr tests)
    obtain other_test emnist_test where tests: "tests = (other_test, emnist_test)"
      by (cases tests)
    show thesis
    proof (cases "client_ids emnist_train")
      case Nil
      then have "run = ([fed, cen], Inl IndexError)"
        by (simp add: run_def fed_def cen_def emnist_configure_training_def fed_ok trains
            cen_ok tests)
      then show thesis by (rule no_client)
    next
      case ids: (Cons client_id more_ids)
      show thesis
      proof (cases "create_tf_dataset_for_client emnist_train client_id")
        case (Inl x)
        then have "run = ([fed, cen, CreateTfDatasetForClient client_id], Inl (Propagated x))"
          by (simp add: run_def fed_def cen_def emnist_configure_training_def fed_ok trains
              cen_ok tests ids)
        then show thesis by (rule client_dataset_raises)
      next
        case ds_ok: (Inr client_dataset)
        note loaded = run_def fed_def cen_def emnist_configure_training_def fed_ok trains
          cen_ok tests ids ds_ok
        show thesis
        proof (cases "model = ''cnn'' \<or> model = ''2nn''")
          case False
          then have "run = ([fed, cen, CreateTfDatasetForClient client_id],
              Inl (ValueError (''Cannot handle model flag ['' @ model @
                     ''], must be one of '' @ py_str_list EMNIST_MODELS @ ''.'')))"
            by (simp add: loaded)
          with False show thesis by (auto intro: unknown_model)
        next
          case True
          define model_builder where
            "model_builder = (if model = ''cnn'' then (\<lambda>_::unit. create_conv_dropout_model env False)
                              else (\<lambda>_. create_two_hidden_layer_model env False))"
          have mb: "model = ''cnn'' \<and> model_builder = (\<lambda>_. create_conv_dropout_model env False)
              \<or> model = ''2nn'' \<and> model_builder = (\<lambda>_. create_two_hidden_layer_model env False)"
            using True by (auto simp: model_builder_def)
          have sel: "(if model = ''cnn'' then Inr (\<lambda>_. create_conv_dropout_model env False)
              else if model = ''2nn'' then Inr (\<lambda>_. create_two_hidden_layer_model env False)
              else Inl (ValueError (''Cannot handle model flag ['' @ model @
                       ''], must be one of '' @ py_str_list EMNIST_MODELS @ ''.'')))
              = (Inr model_builder :: error + (unit \<Rightarrow> 'o outcome))"
            using True by (auto simp: model_builder_def)
          let ?model_fn = "tff_model_fn env model_builder (element_spec client_dataset)
                             loss_builder metrics"
          show thesis
          proof (cases "iterative_process_builder task_spec ?model_fn None")
            case (Inl x)
            then have "run = ([fed, cen, CreateTfDatasetForClient client_id,
                 IterativeProcessBuilder ?model_fn None], Inl (Propagated x))"
              by (simp add: loaded sel loss_builder_def metrics_def Let_def)
            with mb show thesis by (rule process_builder_raises)
          next
            case ipb_ok: (Inr training_process)
            show thesis
            proof (cases "build_client_datasets_fn env emnist_train (clients_per_round task_spec)
                            (client_datasets_random_seed task_spec)")
              case (Inl x)
              with ipb_ok have "run = ([fed, cen, CreateTfDatasetForClient client_id,
                   IterativeProcessBuilder ?model_fn None,
                   BuildClientDatasetsFn emnist_train (clients_per_round task_spec)
                     (client_datasets_random_seed task_spec)], Inl (Propagated x))"
                by (simp add: loaded sel loss_builder_def metrics_def Let_def)
              with mb show thesis by (rule client_datasets_builder_raises)
            next
              case cdf_ok: (Inr client_datasets)
              show thesis
              proof (cases "build_centralized_evaluate_fn env emnist_test model_builder
                              loss_builder metrics")
                case (Inl x)
                with ipb_ok cdf_ok have "run = ([fed, cen, CreateTfDatasetForClient client_id,
                     IterativeProcessBuilder ?model_fn None,
                     BuildClientDatasetsFn emnist_train (clients_per_round task_spec)
                       (client_datasets_random_seed task_spec),
                     BuildCentralizedEvaluateFn emnist_test model_builder loss_builder metrics],
                    Inl (Propagated x))"
                  by (simp add: loaded sel loss_builder_def metrics_def Let_def)
                with mb show thesis by (rule evaluate_builder_raises)
              next
                case ev_ok: (Inr test)
                with ipb_ok cdf_ok have "run = ([fed, cen, CreateTfDatasetForClient client_id,
                     IterativeProcessBuilder ?model_fn None,
                     BuildClientDatasetsFn emnist_train (clients_per_round task_spec)
                       (client_datasets_random_seed task_spec),
                     BuildCentralizedEvaluateFn emnist_test model_builder loss_builder metrics],
                    Inr \<lparr>iterative_process = Some training_process,
                         client_datasets_fn = Some client_datasets,
                         validation_fn = Some (\<lambda>model_weights round_num. test model_weights),
                         test_fn = Some test\<rparr>)"
                  by (simp add: loaded sel loss_builder_def metrics_def Let_def)
                with mb ipb_ok ev_ok show thesis by (rule returns)
              qed
            qed
          qed
        qed
      qed
    qed
  qed
qed








subsection \<open>The runs of the Shakespeare configurator\<close>

lemma shakespeare_configure_training_cases:
  fixes env :: "'o collaborators" and task_spec :: "'o TaskSpec" and sequence_length :: int
  defines "run \<equiv> shakespeare_configure_training env task_spec sequence_length"
    and "fed \<equiv> ShakespeareGetFederatedDatasets (client_batch_size task_spec)
                  (client_epochs_per_round task_spec) sequence_length"
    and "cen \<equiv> ShakespeareGetCentralizedDatasets sequence_length"
    and "model_builder \<equiv> (\<lambda>_::unit. create_shakespeare_model env sequence_length)"
    and "loss_builder \<equiv> (\<lambda>_::unit. SparseCategoricalCrossentropy True)"
    and "metrics \<equiv> (\<lambda>_::unit. metrics_builder env)"
  obtains
    (federated_load_raises) x where
      "run = ([fed], Inl (Propagated x))"
  | (centralized_load_raises) x where
      "run = ([fed, cen], Inl (Propagated x))"
  | (process_builder_raises) input_spec x where
      "run = ([fed, cen,
               IterativeProcessBuilder
                 (tff_model_fn env model_builder input_spec loss_builder metrics)
                 (Some client_weight_fn)],
              Inl (Propagated x))"
  | (client_datasets_builder_raises) input_spec shakespeare_train x where
      "run = ([fed, cen,
               IterativeProcessBuilder
                 (tff_model_fn env model_builder input_spec loss_builder metrics)
                 (Some client_weight_fn),
               BuildClientDatasetsFn shakespeare_train (clients_per_round task_spec)
                 (client_datasets_random_seed task_spec)],
              Inl (Propagated x))"
  | (evaluate_builder_raises) input_spec shakespeare_train shakespeare_test x where
      "run = ([fed, cen,
               IterativeProcessBuilder
                 (tff_model_fn env model_builder input_spec loss_builder metrics)
                 (Some client_weight_fn),
               BuildClientDatasetsFn shakespeare_train (clients_per_round task_spec)
                 (client_datasets_random_seed task_spec),
               BuildCentralizedEvaluateFn shakespeare_test model_builder loss_builder metrics],
              Inl (Propagated x))"
  | (returns) input_spec shakespeare_train shakespeare_test training_process client_datasets
      test where
      "iterative_process_builder task_spec
         (tff_model_fn env model_builder input_spec loss_builder metrics)
         (Some client_weight_fn) = Inr training_process"
      "build_centralized_evaluate_fn env shakespeare_test model_builder loss_builder metrics
       = Inr test"
      "run = ([fed, cen,
               IterativeProcessBuilder
                 (tff_model_fn env model_builder input_spec loss_builder metrics)
                 (Some client_weight_fn),
               BuildClientDatasetsFn shakespeare_train (clients_per_round task_spec)
                 (client_datasets_random_seed task_spec),
               BuildCentralizedEvaluateFn shakespeare_test model_builder loss_builder metrics],
              Inr \<lparr>iterative_process = Some training_process,
                   client_datasets_fn = Some client_datasets,
                   validation_fn = Some (\<lambda>model_weights round_num. test model_weights),
                   test_fn = Some test\<rparr>)"
proof (cases "shakespeare_get_federated_datasets env (client_batch_size task_spec)
                (client_epochs_per_round task_spec) sequence_length")
  case (Inl x)
  then have "run = ([fed], Inl (Propagated x))"
    by (simp add: run_def fed_def shakespeare_configure_training_def)
  then show thesis by (rule federated_load_raises)
next
  case fed_ok: (Inr trains)
  obtain shakespeare_train other_train where trains: "trains = (shakespeare_train, other_train)"
    by (cases trains)
  show thesis
  proof (cases "shakespeare_get_centralized_datasets env sequence_length")
    case (Inl x)
    then have "run = ([fed, cen], Inl (Propagated x))"
      by (simp add: run_def fed_def cen_def shakespeare_configure_training_def fed_ok trains)
    then show thesis by (rule centralized_load_raises)
  next
    case cen_ok: (Inr tests)
    obtain other_test shakespeare_test where tests: "tests = (other_test, shakespeare_test)"
      by (cases tests)
    note loaded = run_def fed_def cen_def model_builder_def loss_builder_def metrics_def
      shakespeare_configure_training_def fed_ok trains cen_ok tests Let_def
    let ?model_fn = "tff_model_fn env model_builder
                       (element_type_structure shakespeare_train) loss_builder metrics"
    show thesis
    proof (cases "iterative_process_builder task_spec ?model_fn (Some client_weight_fn)")
      case (Inl x)
      then have "run = ([fed, cen, IterativeProcessBuilder ?model_fn (Some client_weight_fn)],
          Inl (Propagated x))"
        by (simp add: loaded)
      then show thesis by (rule process_builder_raises)
    next
      case ipb_ok: (Inr training_process)
      show thesis
      proof (cases "build_client_datasets_fn env shakespeare_train (clients_per_round task_spec)
                      (client_datasets_random_seed task_spec)")
        case (Inl x)
        with ipb_ok have "run = ([fed, cen,
             IterativeProcessBuilder ?model_fn (Some client_weight_fn),
             BuildClientDatasetsFn shakespeare_train (clients_per_round task_spec)
               (client_datasets_random_seed task_spec)], Inl (Propagated x))"
          by (simp add: loaded)
        then show thesis by (rule client_datasets_builder_raises)
      next
        case cdf_ok: (Inr client_datasets)
        show thesis
        proof (cases "build_centralized_evaluate_fn env shakespeare_test model_builder
                        loss_builder metrics")
          case (Inl x)
          with ipb_ok cdf_ok have "run = ([fed, cen,
               IterativeProcessBuilder ?model_fn (Some client_weight_fn),
               BuildClientDatasetsFn shakespeare_train (clients_per_round task_spec)
                 (client_datasets_random_seed task_spec),
               BuildCentralizedEvaluateFn shakespeare_test model_builder loss_builder metrics],
              Inl (Propagated x))"
            by (simp add: loaded)
          then show thesis by (rule evaluate_builder_raises)
        next
          case ev_ok: (Inr test)
          with ipb_ok cdf_ok have "run = ([fed, cen,
               IterativeProcessBuilder ?model_fn (Some client_weight_fn),
               BuildClientDatasetsFn shakespeare_train (clients_per_round task_spec)
                 (client_datasets_random_seed task_spec),
               BuildCentralizedEvaluateFn shakespeare_test model_builder loss_builder metrics],
              Inr \<lparr>iterative_process = Some training_process,
                   client_datasets_fn = Some client_datasets,
                   validation_fn = Some (\<lambda>model_weights round_num. test model_weights),
                   test_fn = Some test\<rparr>)"
            by (simp add: loaded)
          with ipb_ok ev_ok show thesis by (rule returns)
        qed
      qed
    qed
  qed
qed

subsection \<open>Runs in the example environments\<close>

lemmas example_defs = example_env_def example_task_spec_def example_client_data_def
  example_runner_spec_def offline_env_def

lemma emnist_example_run:
  "emnist_configure_training example_env example_task_spec ''cnn'' =
     ([EmnistGetFederatedDatasets 20 1 False,
       EmnistGetCentralizedDatasets False,
       CreateTfDatasetForClient ''f0000_14'',
       IterativeProcessBuilder
         (tff_model_fn example_env (\<lambda>_. create_conv_dropout_model example_env False) 0
            (\<lambda>_. SparseCategoricalCrossentropy False) (\<lambda>_. [SparseCategoricalAccuracy])) None,
       BuildClientDatasetsFn example_client_data 10 1,
       BuildCentralizedEvaluateFn \<lparr>element_spec = 0, handle = 3\<rparr>
         (\<lambda>_. create_conv_dropout_model example_env False)
         (\<lambda>_. SparseCategoricalCrossentropy False) (\<lambda>_. [SparseCategoricalAccuracy])],
      Inr example_runner_spec)"
  by (simp add: emnist_configure_training_def example_defs Let_def)

lemma shakespeare_example_run:
  "shakespeare_configure_training example_env example_task_spec 80 =
     ([ShakespeareGetFederatedDatasets 20 1 80,
       ShakespeareGetCentralizedDatasets 80,
       IterativeProcessBuilder
         (tff_model_fn example_env (\<lambda>_. create_shakespeare_model example_env 80) 0
            (\<lambda>_. SparseCategoricalCrossentropy True) (\<lambda>_. metrics_builder example_env))
         (Some client_weight_fn),
       BuildClientDatasetsFn example_client_data 10 1,
       BuildCentralizedEvaluateFn \<lparr>element_spec = 0, handle = 3\<rparr>
         (\<lambda>_. create_shakespeare_model example_env 80)
         (\<lambda>_. SparseCategoricalCrossentropy True) (\<lambda>_. metrics_builder example_env)],
      Inr example_runner_spec)"
  by (simp add: shakespeare_configure_training_def example_defs Let_def)





subsection \<open>Conversion to float32\<close>

lemma excess_bits_small: "m < 16777216 \<Longrightarrow> excess_bits m = 0"
  by (simp add: excess_bits.simps)

lemma float32_of_nat_exact: "m \<le> 16777216 \<Longrightarrow> float32_of_nat m = m"
proof (cases "m < 16777216")
  case True
  then show ?thesis by (simp add: float32_of_nat_def excess_bits_small)
next
  case False
  assume "m \<le> 16777216"
  with False have m: "m = 16777216" by simp
  have "excess_bits 16777216 = Suc 0"
    by (simp add: excess_bits.simps [of 16777216] excess_bits_small)
  then show ?thesis by (simp add: float32_of_nat_def m)
qed

lemma float32_of_int_exact: "\<bar>i\<bar> \<le> 16777216 \<Longrightarrow> float32_of_int i = real_of_int i"
  by (simp add: float32_of_int_def float32_of_nat_exact)

lemma float32_of_nat_rounds:
  "float32_of_nat 16777217 = 16777216"
  "float32_of_nat 16777218 = 16777218"
  "float32_of_nat 16777219 = 16777220"
proof -
  have e: "excess_bits 16777217 = Suc 0" "excess_bits 16777218 = Suc 0"
    "excess_bits 16777219 = Suc 0"
    by (simp_all add: excess_bits.simps [of 16777217] excess_bits.simps [of 16777218]
        excess_bits.simps [of 16777219] excess_bits_small)
  show "float32_of_nat 16777217 = 16777216" "float32_of_nat 16777218 = 16777218"
    "float32_of_nat 16777219 = 16777220"
    by (simp_all add: float32_of_nat_def e)
qed

text \<open>
  The metric of the model counts the positions whose target is not masked: of the targets
  \<open>[0, 7, 8]\<close> with padding token 0, two contribute, and one of the two is predicted.
\<close>

lemma masked_accuracy_example:
  "masked_accuracy_update [0] [0, 7, 8] [1, 7, 9] masked_accuracy_initial =
     \<lparr>correct_positions = 1, contributing_positions = 2\<rparr>"
  "masked_accuracy_result \<lparr>correct_positions = 1, contributing_positions = 2\<rparr> = Inr (1 / 2)"
  by (simp_all add: masked_accuracy_update_def masked_accuracy_initial_def
      masked_accuracy_result_def)

section \<open>The claims\<close>







text \<open>
  C3. For every model weights value and every round number,
  \<^verbatim>\<open>validation_fn(model_weights, round_num)\<close> returns a result identical to
  \<^verbatim>\<open>test_fn(model_weights)\<close>; \<^verbatim>\<open>round_num\<close> has no effect. This holds for the
  RunnerSpec returned by the EMNIST configurator and for the one returned by the Shakespeare
  configurator.
\<close>

theorem validation_fn_ignores_round_num:
  "(snd (emnist_configure_training env task_spec model) = Inr runner_spec \<longrightarrow>
      (\<exists>validation test. validation_fn runner_spec = Some validation
         \<and> test_fn runner_spec = Some test
         \<and> (\<forall>model_weights round_num. validation model_weights round_num = test model_weights)))
   \<and> (snd (shakespeare_configure_training env' task_spec' sequence_length) = Inr runner_spec' \<longrightarrow>
      (\<exists>validation test. validation_fn runner_spec' = Some validation
         \<and> test_fn runner_spec' = Some test
         \<and> (\<forall>model_weights round_num. validation model_weights round_num = test model_weights)))"
proof
  show "snd (emnist_configure_training env task_spec model) = Inr runner_spec \<longrightarrow>
      (\<exists>validation test. validation_fn runner_spec = Some validation
         \<and> test_fn runner_spec = Some test
         \<and> (\<forall>model_weights round_num. validation model_weights round_num = test model_weights))"
    by (cases rule: emnist_configure_training_cases [of env task_spec model]) auto
  show "snd (shakespeare_configure_training env' task_spec' sequence_length) = Inr runner_spec' \<longrightarrow>
      (\<exists>validation test. validation_fn runner_spec' = Some validation
         \<and> test_fn runner_spec' = Some test
         \<and> (\<forall>model_weights round_num. validation model_weights round_num = test model_weights))"
    by (cases rule: shakespeare_configure_training_cases [of env' task_spec' sequence_length])
       auto
qed

theorem validation_fn_ignores_round_num_witness:
  "snd (emnist_configure_training example_env example_task_spec ''cnn'')
     = Inr example_runner_spec
   \<and> snd (shakespeare_configure_training example_env example_task_spec 80)
     = Inr example_runner_spec
   \<and> (\<exists>validation test. validation_fn example_runner_spec = Some validation
         \<and> test_fn example_runner_spec = Some test
         \<and> (\<forall>model_weights round_num. validation model_weights round_num = test model_weights))"
  using validation_fn_ignores_round_num
    [where env = example_env and task_spec = example_task_spec and model = "''cnn''"
       and runner_spec = example_runner_spec and env' = example_env
       and task_spec' = example_task_spec and sequence_length = 80
       and runner_spec' = example_runner_spec]
  by (simp add: emnist_example_run shakespeare_example_run)

text \<open>
  C4. The Shakespeare vocabulary size equals the length of the base character vocabulary
  plus exactly four (for the padding, out-of-vocabulary, begin-of-sequence and
  end-of-sequence tokens), for any base vocabulary; it is the vocabulary size the recurrent
  model is created with.
\<close>

theorem VOCAB_SIZE_base_plus_four:
  "VOCAB_SIZE (env\<lparr>CHAR_VOCAB := vocab\<rparr>) = int (length vocab) + 4
   \<and> create_shakespeare_model env sequence_length =
       create_recurrent_model env (int (length (CHAR_VOCAB env)) + 4) sequence_length"
  by (simp add: VOCAB_SIZE_def create_shakespeare_model_def)

text \<open>
  C5, as stated: the Shakespeare client weight function, given local outputs whose
  \<^verbatim>\<open>num_tokens\<close> entry is a length-1 integer container holding \<open>N\<close>, returns the scalar
  float \<open>N\<close>, so that a client's weight equals its count of non-padding tokens. The weight
  is a \<^verbatim>\<open>float32\<close>, as the comment in the code asks, and a \<^verbatim>\<open>float32\<close> has 24 bits of
  significand: for the count \<open>2\<^sup>2\<^sup>4 + 1 = 16777217\<close> the weight is \<open>16777216\<close>.
\<close>

theorem client_weight_fn_rounds_large_count:
  "[''num_tokens'' \<mapsto> Int64Tensor [1] [16777217]] ''num_tokens''
     = Some (Int64Tensor [1] [16777217])
   \<and> sint (16777217 :: 64 word) = 16777217
   \<and> client_weight_fn [''num_tokens'' \<mapsto> Int64Tensor [1] [16777217]]
     = Inr (Float32Tensor [] [16777216])"
  by (simp add: client_weight_fn_def float32_of_int_def float32_of_nat_rounds)

text \<open>
  C5, amended: the Shakespeare client weight function, given local outputs whose
  \<^verbatim>\<open>num_tokens\<close> entry is a length-1 \<^verbatim>\<open>int64\<close> container holding \<open>N\<close>, returns a
  \<^verbatim>\<open>float32\<close> scalar (a tensor of shape \<open>[]\<close>) that holds the \<^verbatim>\<open>float32\<close> conversion of
  \<open>N\<close>; that is \<open>N\<close> itself whenever \<open>\<bar>N\<bar> \<le> 2\<^sup>2\<^sup>4\<close>, so a client's aggregation weight
  equals its count of non-padding tokens for every count up to \<open>16777216\<close>.
\<close>

theorem client_weight_fn_num_tokens:
  assumes "local_outputs ''num_tokens'' = Some (Int64Tensor [1] [n])"
  shows "client_weight_fn local_outputs = Inr (Float32Tensor [] [float32_of_int (sint n)])
       \<and> (\<bar>sint n\<bar> \<le> 16777216 \<longrightarrow> float32_of_int (sint n) = real_of_int (sint n))"
  using assms by (simp add: client_weight_fn_def float32_of_int_exact)

theorem client_weight_fn_num_tokens_witness:
  "[''num_tokens'' \<mapsto> Int64Tensor [1] [4096]] ''num_tokens'' = Some (Int64Tensor [1] [4096])
   \<and> \<bar>sint (4096 :: 64 word)\<bar> \<le> 16777216
   \<and> client_weight_fn [''num_tokens'' \<mapsto> Int64Tensor [1] [4096]]
       = Inr (Float32Tensor [] [4096])"
  using client_weight_fn_num_tokens [of "[''num_tokens'' \<mapsto> Int64Tensor [1] [4096]]" 4096]
  by simp



text \<open>
  C7. The masked categorical accuracy metric used by the Shakespeare configurator, the
  fourth metric of \<^verbatim>\<open>metrics_builder\<close>, masks the padding token; given a target sequence
  that consists entirely of padding tokens it reports zero contributing positions, and its
  result is a value, not a division by zero.
\<close>

theorem masked_accuracy_all_padding:
  assumes "get_special_tokens env = (pad_token, oov_token, bos_token, eos_token)"
    and "\<forall>token \<in> set y_true. token = pad_token"
  shows "\<exists>masked. metrics_builder env ! 3 = MaskedCategoricalAccuracy masked
           \<and> masked = [pad_token]
           \<and> contributing_positions
                (masked_accuracy_update masked y_true y_pred masked_accuracy_initial) = 0
           \<and> masked_accuracy_result
                (masked_accuracy_update masked y_true y_pred masked_accuracy_initial) = Inr 0"
proof -
  have "filter (\<lambda>(t, p). t \<noteq> pad_token) (zip y_true y_pred) = []"
    using assms(2) by (auto simp: filter_empty_conv dest: set_zip_leftD)
  then show ?thesis
    using assms(1)
    by (simp add: metrics_builder_def masked_accuracy_update_def masked_accuracy_result_def
        masked_accuracy_initial_def numeral_3_eq_3)
qed

theorem masked_accuracy_all_padding_witness:
  "get_special_tokens example_env = (0, 4, 5, 6)
   \<and> set [0, 0, 0 :: int] = {0}
   \<and> (\<exists>masked. metrics_builder example_env ! 3 = MaskedCategoricalAccuracy masked
           \<and> masked = [0]
           \<and> contributing_positions
                (masked_accuracy_update masked [0, 0, 0] [1, 0, 2] masked_accuracy_initial) = 0
           \<and> masked_accuracy_result
                (masked_accuracy_update masked [0, 0, 0] [1, 0, 2] masked_accuracy_initial)
               = Inr 0)"
  using masked_accuracy_all_padding [of example_env 0 4 5 6 "[0, 0, 0]" "[1, 0, 2]"]
  by (simp add: example_env_def)

text \<open>
  C8. The Shakespeare configurator always passes its \<^verbatim>\<open>client_weight_fn\<close> to the
  iterative-process builder: every call of the builder has it as the client-weighting
  argument, and the process of a returned RunnerSpec is the result of such a call. The EMNIST
  configurator calls the builder with the model factory only: every call of the builder is
  without a client-weighting argument, and the process of a returned RunnerSpec is the
  result of such a call, so the weighting is the builder's default.
\<close>

theorem client_weight_fn_passed_by_shakespeare_only:
  "(IterativeProcessBuilder model_fn weight_fn
      \<in> set (fst (shakespeare_configure_training env task_spec sequence_length)) \<longrightarrow>
      weight_fn = Some client_weight_fn)
   \<and> (snd (shakespeare_configure_training env task_spec sequence_length) = Inr runner_spec \<longrightarrow>
      (\<exists>factory process.
         IterativeProcessBuilder factory (Some client_weight_fn)
           \<in> set (fst (shakespeare_configure_training env task_spec sequence_length))
         \<and> iterative_process_builder task_spec factory (Some client_weight_fn) = Inr process
         \<and> iterative_process runner_spec = Some process))
   \<and> (IterativeProcessBuilder model_fn' weight_fn'
      \<in> set (fst (emnist_configure_training env' task_spec' model)) \<longrightarrow>
      weight_fn' = None)
   \<and> (snd (emnist_configure_training env' task_spec' model) = Inr runner_spec' \<longrightarrow>
      (\<exists>factory process.
         IterativeProcessBuilder factory None
           \<in> set (fst (emnist_configure_training env' task_spec' model))
         \<and> iterative_process_builder task_spec' factory None = Inr process
         \<and> iterative_process runner_spec' = Some process))"
proof (intro conjI)
  show "IterativeProcessBuilder model_fn weight_fn
      \<in> set (fst (shakespeare_configure_training env task_spec sequence_length)) \<longrightarrow>
      weight_fn = Some client_weight_fn"
    by (cases rule: shakespeare_configure_training_cases [of env task_spec sequence_length])
       auto
  show "snd (shakespeare_configure_training env task_spec sequence_length) = Inr runner_spec \<longrightarrow>
      (\<exists>factory process.
         IterativeProcessBuilder factory (Some client_weight_fn)
           \<in> set (fst (shakespeare_configure_training env task_spec sequence_length))
         \<and> iterative_process_builder task_spec factory (Some client_weight_fn) = Inr process
         \<and> iterative_process runner_spec = Some process)"
    by (cases rule: shakespeare_configure_training_cases [of env task_spec sequence_length])
       auto
  show "IterativeProcessBuilder model_fn' weight_fn'
      \<in> set (fst (emnist_configure_training env' task_spec' model)) \<longrightarrow>
      weight_fn' = None"
    by (cases rule: emnist_configure_training_cases [of env' task_spec' model]) auto
  show "snd (emnist_configure_training env' task_spec' model) = Inr runner_spec' \<longrightarrow>
      (\<exists>factory process.
         IterativeProcessBuilder factory None
           \<in> set (fst (emnist_configure_training env' task_spec' model))
         \<and> iterative_process_builder task_spec' factory None = Inr process
         \<and> iterative_process runner_spec' = Some process)"
    by (cases rule: emnist_configure_training_cases [of env' task_spec' model]) auto
qed

theorem client_weight_fn_passed_by_shakespeare_only_witness:
  "IterativeProcessBuilder
     (tff_model_fn example_env (\<lambda>_. create_shakespeare_model example_env 80) 0
        (\<lambda>_. SparseCategoricalCrossentropy True) (\<lambda>_. metrics_builder example_env))
     (Some client_weight_fn)
     \<in> set (fst (shakespeare_configure_training example_env example_task_spec 80))
   \<and> snd (shakespeare_configure_training example_env example_task_spec 80)
       = Inr example_runner_spec
   \<and> IterativeProcessBuilder
       (tff_model_fn example_env (\<lambda>_. create_conv_dropout_model example_env False) 0
          (\<lambda>_. SparseCategoricalCrossentropy False) (\<lambda>_. [SparseCategoricalAccuracy])) None
     \<in> set (fst (emnist_configure_training example_env example_task_spec ''cnn''))
   \<and> snd (emnist_configure_training example_env example_task_spec ''cnn'')
       = Inr example_runner_spec
   \<and> (\<exists>factory process.
         iterative_process_builder example_task_spec factory (Some client_weight_fn) = Inr process
         \<and> iterative_process example_runner_spec = Some process)"
  using client_weight_fn_passed_by_shakespeare_only [of "tff_model_fn example_env (\<lambda>_. create_shakespeare_model example_env 80) 0
        (\<lambda>_. SparseCategoricalCrossentropy True) (\<lambda>_. metrics_builder example_env)"
      "Some client_weight_fn" example_env example_task_spec 80 example_runner_spec
      "tff_model_fn example_env (\<lambda>_. create_conv_dropout_model example_env False) 0
          (\<lambda>_. SparseCategoricalCrossentropy False) (\<lambda>_. [SparseCategoricalAccuracy])"
      None example_env example_task_spec "''cnn''" example_runner_spec]
  by (auto simp: emnist_example_run shakespeare_example_run)



text \<open>
  C10. At the public interface the EMNIST configurator's \<^verbatim>\<open>model\<close> argument defaults to
  \<^verbatim>\<open>'cnn'\<close>, which is one of the allowed names, and the Shakespeare configurator's
  \<^verbatim>\<open>sequence_length\<close> argument defaults to 80: a call of either
  \<^verbatim>\<open>configure_training\<close> with only a TaskSpec is the call with that value.
\<close>

theorem configure_training_defaults:
  "emnist_configure_training_call env task_spec None =
     emnist_configure_training env task_spec ''cnn''
   \<and> ''cnn'' \<in> set EMNIST_MODELS
   \<and> shakespeare_configure_training_call env task_spec None =
     shakespeare_configure_training env task_spec 80"
  by (simp add: emnist_configure_training_call_def shakespeare_configure_training_call_def
      in_EMNIST_MODELS)

end
